theory Spec2Isabelle
  imports Complex_Main "HOL-Library.Sublist"
begin

section \<open>Python values and library functions\<close>

text \<open>
  The program is \<^verbatim>\<open>chicago_public_schools_data_preprocessing.py\<close>. Its numbers are
  Python floats. The embedding reads a float as a real number and every float operation as
  the exact operation on the reals, so the theorems below are statements about the
  program's arithmetic in exact real arithmetic: not-a-number, infinities and rounding are
  outside this model. The one place where rounding is the subject, the conversion between
  degrees and radians, is embedded a second time with every operation rounded
  (section \<open>The conversions with rounded arithmetic\<close>).

  Exceptions are values: a function that can raise returns \<open>error + 'a\<close>, with
  \<open>Inl\<close> the exception.
\<close>

datatype error =
    ValueError
  | KeyError string
  | FileNotFoundError
  | StopIteration

text \<open>
  \<^verbatim>\<open>math.sqrt\<close> raises ValueError below 0, \<^verbatim>\<open>math.asin\<close> raises it outside
  \<open>[-1, 1]\<close>. \<^verbatim>\<open>math.pow\<close> is only called with the literal exponent 2, so its
  exponent is a natural number here.
\<close>

definition math_sqrt :: "real \<Rightarrow> error + real" where
  "math_sqrt x = (if x < 0 then Inl ValueError else Inr (sqrt x))"

definition math_asin :: "real \<Rightarrow> error + real" where
  "math_asin x = (if x < - 1 \<or> 1 < x then Inl ValueError else Inr (arcsin x))"

definition math_pow :: "real \<Rightarrow> nat \<Rightarrow> real" where
  "math_pow x n = x ^ n"

text \<open>
  \<^verbatim>\<open>int(s)\<close> and \<^verbatim>\<open>float(s)\<close> are Python built-ins. Their grammar is not part of the
  program, so the parsers are parameters of the model: \<open>None\<close> is the string the built-in
  rejects with ValueError.
\<close>

type_synonym int_parser = "string \<Rightarrow> int option"
type_synonym float_parser = "string \<Rightarrow> real option"

definition py_int :: "int_parser \<Rightarrow> string \<Rightarrow> error + int" where
  "py_int parse_int s = (case parse_int s of None \<Rightarrow> Inl ValueError | Some n \<Rightarrow> Inr n)"

definition py_float :: "float_parser \<Rightarrow> string \<Rightarrow> error + real" where
  "py_float parse_float s = (case parse_float s of None \<Rightarrow> Inl ValueError | Some x \<Rightarrow> Inr x)"

text \<open>
  A row of the file is a \<^verbatim>\<open>dict\<close> from column name to field. \<^verbatim>\<open>data[k]\<close> raises
  KeyError for a key that is absent. \<^verbatim>\<open>dict(zip(header, content))\<close> pairs the two lists up
  to the shorter one and stores the pairs from left to right, a later pair replacing an
  earlier one with the same key.
\<close>

type_synonym row_dict = "string \<rightharpoonup> string"

definition getitem :: "row_dict \<Rightarrow> string \<Rightarrow> error + string" where
  "getitem data k = (case data k of None \<Rightarrow> Inl (KeyError k) | Some v \<Rightarrow> Inr v)"

definition dict_zip :: "string list \<Rightarrow> string list \<Rightarrow> row_dict" where
  "dict_zip header content = fold (\<lambda>(k, v) m. m(k \<mapsto> v)) (zip header content) Map.empty"

text \<open>
  \<^verbatim>\<open>s.split(sep)\<close> for a separator that is not empty: the pieces between the occurrences
  of \<open>sep\<close>, found from left to right without overlap. \<open>cur\<close> is the piece being read.
\<close>

function str_split_from :: "string \<Rightarrow> string \<Rightarrow> string \<Rightarrow> string list" where
  "str_split_from sep cur [] = [cur]"
| "str_split_from sep cur (c # cs) =
     (if sep \<noteq> [] \<and> prefix sep (c # cs)
      then cur # str_split_from sep [] (drop (length sep) (c # cs))
      else str_split_from sep (cur @ [c]) cs)"
  by pat_completeness auto
termination
  by (relation "measure (\<lambda>(sep, cur, s). length s)") (auto simp: neq_Nil_conv)

definition str_split :: "string \<Rightarrow> string \<Rightarrow> string list" where
  "str_split s sep = str_split_from sep [] s"

section \<open>Coordinate\<close>

definition EARTH_RADIUS :: real where
  "EARTH_RADIUS = 3961"

record Coordinate =
  latitude :: real
  longitude :: real

definition degree_to_radian :: "real \<Rightarrow> real" where
  "degree_to_radian degree_latitude_or_longitude = degree_latitude_or_longitude * pi / 180"

definition fromdegrees :: "real \<Rightarrow> real \<Rightarrow> Coordinate" where
  "fromdegrees lat lon = \<lparr>latitude = degree_to_radian lat, longitude = degree_to_radian lon\<rparr>"

text \<open>
  \<^verbatim>\<open>Coordinate.distance\<close>: the two differences, then one expression. The calls of
  \<^verbatim>\<open>math.sqrt\<close> and \<^verbatim>\<open>math.asin\<close> are the two places where it can raise.
\<close>

definition Coordinate_distance :: "Coordinate \<Rightarrow> Coordinate \<Rightarrow> error + real" where
  "Coordinate_distance self coord =
     (let latitude_diff = latitude self - latitude coord;
          longitude_diff = longitude self - longitude coord
      in case math_sqrt (math_pow (sin (latitude_diff / 2)) 2
                + cos (latitude self) * cos (latitude coord) * math_pow (sin (longitude_diff / 2)) 2) of
           Inl e \<Rightarrow> Inl e
         | Inr square_root \<Rightarrow>
             (case math_asin square_root of
                Inl e \<Rightarrow> Inl e
              | Inr angle \<Rightarrow> Inr (2 * EARTH_RADIUS * angle)))"

definition as_degrees :: "Coordinate \<Rightarrow> real \<times> real" where
  "as_degrees self =
     (let degree_latitude = latitude self * 180 / pi;
          degree_longitude = longitude self * 180 / pi
      in (degree_latitude, degree_longitude))"

section \<open>School\<close>

record School =
  id' :: int
  name :: string
  network :: string
  address :: string
  zip' :: string
  phone :: string
  grades :: "string list"
  location :: Coordinate

text \<open>
  \<^verbatim>\<open>School.__init__\<close> reads the fields in the order of its assignments; the first
  lookup or conversion that raises ends it.
\<close>

definition School_init :: "int_parser \<Rightarrow> float_parser \<Rightarrow> row_dict \<Rightarrow> error + School" where
  "School_init parse_int parse_float data =
     (case getitem data ''School_ID'' of Inl e \<Rightarrow> Inl e | Inr id_text \<Rightarrow>
     (case py_int parse_int id_text of Inl e \<Rightarrow> Inl e | Inr id_value \<Rightarrow>
     (case getitem data ''Short_Name'' of Inl e \<Rightarrow> Inl e | Inr name_value \<Rightarrow>
     (case getitem data ''Network'' of Inl e \<Rightarrow> Inl e | Inr network_value \<Rightarrow>
     (case getitem data ''Address'' of Inl e \<Rightarrow> Inl e | Inr address_value \<Rightarrow>
     (case getitem data ''Zip'' of Inl e \<Rightarrow> Inl e | Inr zip_value \<Rightarrow>
     (case getitem data ''Phone'' of Inl e \<Rightarrow> Inl e | Inr phone_value \<Rightarrow>
     (case getitem data ''Grades'' of Inl e \<Rightarrow> Inl e | Inr grades_text \<Rightarrow>
     (case getitem data ''Lat'' of Inl e \<Rightarrow> Inl e | Inr lat_text \<Rightarrow>
     (case py_float parse_float lat_text of Inl e \<Rightarrow> Inl e | Inr lat \<Rightarrow>
     (case getitem data ''Long'' of Inl e \<Rightarrow> Inl e | Inr long_text \<Rightarrow>
     (case py_float parse_float long_text of Inl e \<Rightarrow> Inl e | Inr lon \<Rightarrow>
        Inr \<lparr>id' = id_value, name = name_value, network = network_value,
             address = address_value, zip' = zip_value, phone = phone_value,
             grades = str_split grades_text '', '',
             location = fromdegrees lat lon\<rparr>))))))))))))"

text \<open>\<^verbatim>\<open>School.distance\<close> repeats the expression of \<^verbatim>\<open>Coordinate.distance\<close> on its location.\<close>

definition School_distance :: "School \<Rightarrow> Coordinate \<Rightarrow> error + real" where
  "School_distance self coord =
     (let latitude_diff = latitude (location self) - latitude coord;
          longitude_diff = longitude (location self) - longitude coord
      in case math_sqrt (math_pow (sin (latitude_diff / 2)) 2
                + cos (latitude (location self)) * cos (latitude coord)
                  * math_pow (sin (longitude_diff / 2)) 2) of
           Inl e \<Rightarrow> Inl e
         | Inr square_root \<Rightarrow>
             (case math_asin square_root of
                Inl e \<Rightarrow> Inl e
              | Inr angle \<Rightarrow> Inr (2 * EARTH_RADIUS * angle)))"

definition full_address :: "School \<Rightarrow> string" where
  "full_address self = address self @ '' '' @ [CHR 0x0A] @ ''Chicago, IL '' @ [CHR 0x0A] @ zip' self"

section \<open>CPS\<close>

record CPS =
  schools :: "School list"

text \<open>
  The file system is a map from a file name to the rows \<^verbatim>\<open>csv.reader\<close> yields for that
  file (each row a list of fields), \<open>None\<close> where \<^verbatim>\<open>open\<close> raises. The loop of
  \<^verbatim>\<open>CPS.__init__\<close> appends one School for each row after the header.
\<close>

type_synonym file_system = "string \<rightharpoonup> string list list"

fun load_schools ::
  "int_parser \<Rightarrow> float_parser \<Rightarrow> string list \<Rightarrow> string list list \<Rightarrow> School list \<Rightarrow> error + School list"
where
  "load_schools parse_int parse_float header [] acc = Inr acc"
| "load_schools parse_int parse_float header (line # rest) acc =
     (case School_init parse_int parse_float (dict_zip header line) of
        Inl e \<Rightarrow> Inl e
      | Inr current_school \<Rightarrow>
          load_schools parse_int parse_float header rest (acc @ [current_school]))"

definition CPS_init :: "int_parser \<Rightarrow> float_parser \<Rightarrow> file_system \<Rightarrow> string \<Rightarrow> error + CPS" where
  "CPS_init parse_int parse_float fs filename =
     (case fs ''schools.csv'' of
        None \<Rightarrow> Inl FileNotFoundError
      | Some csv_reader \<Rightarrow>
          (case csv_reader of
             [] \<Rightarrow> Inl StopIteration
           | header # lines \<Rightarrow>
               (case load_schools parse_int parse_float header lines [] of
                  Inl e \<Rightarrow> Inl e
                | Inr loaded \<Rightarrow> Inr \<lparr>schools = loaded\<rparr>)))"

text \<open>\<^verbatim>\<open>nearby_schools\<close>: the distance is taken from the query point to the school's location.\<close>

fun nearby_loop :: "Coordinate \<Rightarrow> real \<Rightarrow> School list \<Rightarrow> School list \<Rightarrow> error + School list" where
  "nearby_loop coord radius [] nearby = Inr nearby"
| "nearby_loop coord radius (school # rest) nearby =
     (case Coordinate_distance coord (location school) of
        Inl e \<Rightarrow> Inl e
      | Inr current_distance \<Rightarrow>
          (if current_distance > radius
           then nearby_loop coord radius rest nearby
           else nearby_loop coord radius rest (nearby @ [school])))"

definition nearby_schools :: "CPS \<Rightarrow> Coordinate \<Rightarrow> real \<Rightarrow> error + School list" where
  "nearby_schools self coord radius = nearby_loop coord radius (schools self) []"

text \<open>The default of the parameter \<^verbatim>\<open>radius\<close> is 1.0.\<close>

definition nearby_schools_default :: "CPS \<Rightarrow> Coordinate \<Rightarrow> error + School list" where
  "nearby_schools_default self coord = nearby_schools self coord 1"

text \<open>
  \<^verbatim>\<open>get_schools_by_grade\<close> first copies its arguments into a list, then keeps the schools
  for which \<^verbatim>\<open>set(input_grades).issubset(set(school.grades))\<close>.
\<close>

fun copy_grades :: "string list \<Rightarrow> string list \<Rightarrow> string list" where
  "copy_grades [] input_grades = input_grades"
| "copy_grades (grade # rest) input_grades = copy_grades rest (input_grades @ [grade])"

fun grade_loop :: "string list \<Rightarrow> School list \<Rightarrow> School list \<Rightarrow> School list" where
  "grade_loop input_grades [] schools_by_grade = schools_by_grade"
| "grade_loop input_grades (school # rest) schools_by_grade =
     (if \<not> set input_grades \<subseteq> set (grades school)
      then grade_loop input_grades rest schools_by_grade
      else grade_loop input_grades rest (schools_by_grade @ [school]))"

definition get_schools_by_grade :: "CPS \<Rightarrow> string list \<Rightarrow> School list" where
  "get_schools_by_grade self grades_arg =
     grade_loop (copy_grades grades_arg []) (schools self) []"

fun network_loop :: "string \<Rightarrow> School list \<Rightarrow> School list \<Rightarrow> School list" where
  "network_loop network_arg [] schools_by_network = schools_by_network"
| "network_loop network_arg (school # rest) schools_by_network =
     (if network school \<noteq> network_arg
      then network_loop network_arg rest schools_by_network
      else network_loop network_arg rest (schools_by_network @ [school]))"

definition get_schools_by_network :: "CPS \<Rightarrow> string \<Rightarrow> School list" where
  "get_schools_by_network self network_arg = network_loop network_arg (schools self) []"

section \<open>The conversions with rounded arithmetic\<close>

text \<open>
  A float operation returns the exact result rounded to a float. \<open>rnd\<close> is the rounding;
  \<^verbatim>\<open>math.pi\<close> is the float \<open>rnd pi\<close>, and the literal 180 is a float as it stands. What is
  required of \<open>rnd\<close> is the standard model of binary64 arithmetic: below the overflow
  threshold the error is at most the relative error \<open>2\<^sup>-\<^sup>5\<^sup>3\<close> of a normal result plus the
  absolute error \<open>2\<^sup>-\<^sup>1\<^sup>0\<^sup>7\<^sup>5\<close> of a subnormal one. The identity is such a rounding, and
  with it the functions below are the exact ones above.
\<close>

definition float_rounding :: "(real \<Rightarrow> real) \<Rightarrow> bool" where
  "float_rounding rnd \<longleftrightarrow>
     (\<forall>x. \<bar>x\<bar> \<le> 2 ^ 1023 \<longrightarrow> \<bar>rnd x - x\<bar> \<le> \<bar>x\<bar> / 2 ^ 53 + 1 / 2 ^ 1075)"

definition degree_to_radian_fl :: "(real \<Rightarrow> real) \<Rightarrow> real \<Rightarrow> real" where
  "degree_to_radian_fl rnd degree_latitude_or_longitude =
     rnd (rnd (degree_latitude_or_longitude * rnd pi) / 180)"

definition fromdegrees_fl :: "(real \<Rightarrow> real) \<Rightarrow> real \<Rightarrow> real \<Rightarrow> Coordinate" where
  "fromdegrees_fl rnd lat lon =
     \<lparr>latitude = degree_to_radian_fl rnd lat, longitude = degree_to_radian_fl rnd lon\<rparr>"

definition as_degrees_fl :: "(real \<Rightarrow> real) \<Rightarrow> Coordinate \<Rightarrow> real \<times> real" where
  "as_degrees_fl rnd self =
     (let degree_latitude = rnd (rnd (latitude self * 180) / rnd pi);
          degree_longitude = rnd (rnd (longitude self * 180) / rnd pi)
      in (degree_latitude, degree_longitude))"

section \<open>Predicates and formulas of the specification\<close>

text \<open>
  A school is within \<open>radius\<close> of a point when \<^verbatim>\<open>School.distance\<close> to the point
  returns a value that is at most \<open>radius\<close>.
\<close>

definition within_radius :: "School \<Rightarrow> Coordinate \<Rightarrow> real \<Rightarrow> bool" where
  "within_radius s point radius =
     (case School_distance s point of Inl e \<Rightarrow> False | Inr d \<Rightarrow> d \<le> radius)"

text \<open>
  The haversine expression as the specification writes it, on the four angles, with the
  radius 3961.
\<close>

definition spec_haversine :: "real \<Rightarrow> real \<Rightarrow> real \<Rightarrow> real \<Rightarrow> real" where
  "spec_haversine lat_a lon_a lat_b lon_b =
     (let dlat = lat_a - lat_b; dlon = lon_a - lon_b; R = 3961
      in 2 * R * arcsin (sqrt ((sin (dlat / 2))\<^sup>2 + cos lat_a * cos lat_b * (sin (dlon / 2))\<^sup>2)))"

text \<open>
  The nine columns \<^verbatim>\<open>School.__init__\<close> reads. A row is complete when its \<^verbatim>\<open>dict\<close> has all
  of them. A numeric field is bad when it is present and the built-in rejects it.
\<close>

definition required_columns :: "string list" where
  "required_columns = [''School_ID'', ''Short_Name'', ''Network'', ''Address'', ''Zip'',
     ''Phone'', ''Grades'', ''Lat'', ''Long'']"

definition complete_row :: "row_dict \<Rightarrow> bool" where
  "complete_row data = list_all (\<lambda>k. data k \<noteq> None) required_columns"

definition unparseable_int :: "int_parser \<Rightarrow> row_dict \<Rightarrow> string \<Rightarrow> bool" where
  "unparseable_int parse_int data k =
     (case data k of None \<Rightarrow> False | Some v \<Rightarrow> parse_int v = None)"

definition unparseable_float :: "float_parser \<Rightarrow> row_dict \<Rightarrow> string \<Rightarrow> bool" where
  "unparseable_float parse_float data k =
     (case data k of None \<Rightarrow> False | Some v \<Rightarrow> parse_float v = None)"

definition bad_numeric_field :: "int_parser \<Rightarrow> float_parser \<Rightarrow> row_dict \<Rightarrow> bool" where
  "bad_numeric_field parse_int parse_float data =
     (unparseable_int parse_int data ''School_ID''
      \<or> unparseable_float parse_float data ''Lat''
      \<or> unparseable_float parse_float data ''Long'')"

section \<open>Example data\<close>

text \<open>
  A catalog of two schools, one at latitude 0, longitude 0 and one at latitude 0,
  longitude 180 degrees: the two are half a great circle apart.
\<close>

definition school_A :: School where
  "school_A = \<lparr>id' = 1, name = ''A'', network = ''N1'', address = ''1 First St'',
     zip' = ''60601'', phone = ''555-0001'', grades = [''K'', ''1'', ''2''],
     location = fromdegrees 0 0\<rparr>"

definition school_B :: School where
  "school_B = \<lparr>id' = 2, name = ''B'', network = ''N2'', address = ''2 Second St'',
     zip' = ''60602'', phone = ''555-0002'', grades = [''9'', ''10''],
     location = fromdegrees 0 180\<rparr>"

definition example_cps :: CPS where
  "example_cps = \<lparr>schools = [school_A, school_B]\<rparr>"

text \<open>
  Parsers for the examples (they accept the few numerals the example rows use), a header,
  rows, and a file system with two files.
\<close>

definition example_parse_int :: int_parser where
  "example_parse_int s =
     (if s = ''1'' then Some 1 else if s = ''2'' then Some 2 else if s = ''3'' then Some 3
      else None)"

definition example_parse_float :: float_parser where
  "example_parse_float s = (if s = ''0'' then Some 0 else if s = ''180'' then Some 180 else None)"

definition example_header :: "string list" where
  "example_header = [''School_ID'', ''Short_Name'', ''Network'', ''Address'', ''Zip'',
     ''Phone'', ''Grades'', ''Lat'', ''Long'']"

definition example_row_A :: "string list" where
  "example_row_A = [''1'', ''A'', ''N1'', ''1 First St'', ''60601'', ''555-0001'', ''K, 1, 2'',
     ''0'', ''0'']"

definition example_row_B :: "string list" where
  "example_row_B = [''2'', ''B'', ''N2'', ''2 Second St'', ''60602'', ''555-0002'', ''9, 10'',
     ''0'', ''180'']"

definition example_row_bad :: "string list" where
  "example_row_bad = [''3'', ''C'', ''N3'', ''3 Third St'', ''60603'', ''555-0003'', ''PK'',
     ''north'', ''0'']"

definition example_fs :: file_system where
  "example_fs = [''schools.csv'' \<mapsto> [example_header, example_row_A, example_row_B],
                 ''other.csv'' \<mapsto> [example_header, example_row_B]]"

section \<open>The haversine argument\<close>

text \<open>
  With \<open>t\<close> the squared sine of half the longitude difference, the argument of the
  square root is the convex combination \<open>(1 - t) * A + t * B\<close> of
  \<open>A = (1 - cos (a - b)) / 2\<close> and \<open>B = (1 + cos (a + b)) / 2\<close>, both in \<open>[0, 1]\<close>.
\<close>

lemma hav_identity:
  fixes a b y :: real
  shows "(sin ((a - b) / 2))\<^sup>2 + cos a * cos b * (sin y)\<^sup>2
       = (1 - (sin y)\<^sup>2) * ((1 - cos (a - b)) / 2) + (sin y)\<^sup>2 * ((1 + cos (a + b)) / 2)"
proof -
  have e: "2 * ((a - b) / 2) = a - b" by simp
  have "cos (a - b) = 1 - 2 * (sin ((a - b) / 2))\<^sup>2"
    using cos_double_sin [of "(a - b) / 2"] unfolding e .
  then have h1: "(sin ((a - b) / 2))\<^sup>2 = (1 - cos (a - b)) / 2"
    by simp
  have h2: "cos a * cos b = (cos (a - b) + cos (a + b)) / 2"
    by (rule cos_times_cos)
  show ?thesis
    unfolding h1 h2 by (simp add: field_simps)
qed

lemma sin_squared_unit:
  fixes y :: real
  shows "0 \<le> (sin y)\<^sup>2" and "0 \<le> 1 - (sin y)\<^sup>2"
  by (simp_all add: abs_square_le_1)

lemma hav_nonneg:
  fixes a b y :: real
  shows "0 \<le> (sin ((a - b) / 2))\<^sup>2 + cos a * cos b * (sin y)\<^sup>2"
proof -
  have A: "0 \<le> (1 - cos (a - b)) / 2" by simp
  have "0 \<le> 1 + cos (a + b)"
    using cos_ge_minus_one [of "a + b"] by linarith
  then have B: "0 \<le> (1 + cos (a + b)) / 2"
    by simp
  show ?thesis
    unfolding hav_identity using sin_squared_unit [of y] A B
    by (intro add_nonneg_nonneg mult_nonneg_nonneg)
qed

lemma hav_le_one:
  fixes a b y :: real
  shows "(sin ((a - b) / 2))\<^sup>2 + cos a * cos b * (sin y)\<^sup>2 \<le> 1"
proof -
  define t where "t = (sin y)\<^sup>2"
  have t0: "0 \<le> t" and t1: "0 \<le> 1 - t"
    unfolding t_def using sin_squared_unit [of y] by simp_all
  have "1 - cos (a - b) \<le> 2"
    using cos_ge_minus_one [of "a - b"] by linarith
  then have A: "(1 - cos (a - b)) / 2 \<le> 1"
    by simp
  have B: "(1 + cos (a + b)) / 2 \<le> 1" by simp
  have eq: "(sin ((a - b) / 2))\<^sup>2 + cos a * cos b * (sin y)\<^sup>2
      = (1 - t) * ((1 - cos (a - b)) / 2) + t * ((1 + cos (a + b)) / 2)"
    unfolding t_def by (rule hav_identity)
  have "(1 - t) * ((1 - cos (a - b)) / 2) \<le> (1 - t) * 1"
    using A t1 by (rule mult_left_mono)
  moreover have "t * ((1 + cos (a + b)) / 2) \<le> t * 1"
    using B t0 by (rule mult_left_mono)
  ultimately have "(1 - t) * ((1 - cos (a - b)) / 2) + t * ((1 + cos (a + b)) / 2)
      \<le> (1 - t) * 1 + t * 1"
    by (rule add_mono)
  then show ?thesis
    unfolding eq by simp
qed

lemma sqrt_hav_unit:
  fixes a b y :: real
  shows "0 \<le> sqrt ((sin ((a - b) / 2))\<^sup>2 + cos a * cos b * (sin y)\<^sup>2)"
    and "sqrt ((sin ((a - b) / 2))\<^sup>2 + cos a * cos b * (sin y)\<^sup>2) \<le> 1"
  using hav_nonneg [of a b y] hav_le_one [of a b y] by simp_all

lemma Coordinate_distance_Inr:
  "Coordinate_distance a b =
     Inr (2 * EARTH_RADIUS * arcsin (sqrt ((sin ((latitude a - latitude b) / 2))\<^sup>2
        + cos (latitude a) * cos (latitude b) * (sin ((longitude a - longitude b) / 2))\<^sup>2)))"
proof -
  let ?h = "(sin ((latitude a - latitude b) / 2))\<^sup>2
        + cos (latitude a) * cos (latitude b) * (sin ((longitude a - longitude b) / 2))\<^sup>2"
  have h0: "\<not> ?h < 0"
    using hav_nonneg [of "latitude a" "latitude b" "(longitude a - longitude b) / 2"] by simp
  have s0: "\<not> sqrt ?h < - 1"
    using sqrt_hav_unit(1) [of "latitude a" "latitude b" "(longitude a - longitude b) / 2"]
    by linarith
  have s1: "\<not> 1 < sqrt ?h"
    using sqrt_hav_unit(2) [of "latitude a" "latitude b" "(longitude a - longitude b) / 2"]
    by linarith
  show ?thesis
    using h0 s0 s1
    by (simp add: Coordinate_distance_def math_sqrt_def math_asin_def math_pow_def Let_def)
qed

lemma hav_commute:
  fixes a b x y :: real
  shows "(sin ((a - b) / 2))\<^sup>2 + cos a * cos b * (sin ((x - y) / 2))\<^sup>2
       = (sin ((b - a) / 2))\<^sup>2 + cos b * cos a * (sin ((y - x) / 2))\<^sup>2"
proof -
  have "(b - a) / 2 = - ((a - b) / 2)" and "(y - x) / 2 = - ((x - y) / 2)"
    by (simp_all add: diff_divide_distrib)
  then show ?thesis
    by (simp only: sin_minus power2_minus mult.commute [of "cos b" "cos a"])
qed

lemma Coordinate_distance_commute:
  "Coordinate_distance a b = Coordinate_distance b a"
  unfolding Coordinate_distance_Inr
  using hav_commute [of "latitude a" "latitude b" "longitude a" "longitude b"]
  by simp

lemma Coordinate_distance_bounds:
  assumes "Coordinate_distance a b = Inr d"
  shows "0 \<le> d" and "d \<le> pi * EARTH_RADIUS"
proof -
  let ?r = "sqrt ((sin ((latitude a - latitude b) / 2))\<^sup>2
        + cos (latitude a) * cos (latitude b) * (sin ((longitude a - longitude b) / 2))\<^sup>2)"
  have d: "d = 2 * EARTH_RADIUS * arcsin ?r"
    using assms unfolding Coordinate_distance_Inr by simp
  have r0: "0 \<le> ?r" and r1: "?r \<le> 1"
    using sqrt_hav_unit [of "latitude a" "latitude b" "(longitude a - longitude b) / 2"]
    by simp_all
  have a0: "0 \<le> arcsin ?r"
    using r0 r1 by (intro arcsin_nonneg) simp
  have a1: "arcsin ?r \<le> pi / 2"
    using r0 r1 by (intro arcsin_ubound) linarith+
  show "0 \<le> d"
    unfolding d EARTH_RADIUS_def using a0 by simp
  show "d \<le> pi * EARTH_RADIUS"
    unfolding d EARTH_RADIUS_def using a1 by simp
qed

lemma School_distance_on_location:
  "School_distance s coord = Coordinate_distance (location s) coord"
  by (simp add: School_distance_def Coordinate_distance_def)

lemma nearby_loop_filter:
  "nearby_loop coord radius ss acc = Inr (acc @ filter (\<lambda>s. within_radius s coord radius) ss)"
proof (induction ss arbitrary: acc)
  case Nil
  show ?case by simp
next
  case (Cons s ss)
  obtain d where d: "Coordinate_distance coord (location s) = Inr d"
    using Coordinate_distance_Inr by blast
  have "School_distance s coord = Inr d"
    using d by (simp add: School_distance_on_location Coordinate_distance_commute [of coord])
  then have w: "within_radius s coord radius \<longleftrightarrow> d \<le> radius"
    by (simp add: within_radius_def)
  show ?case
    using d w Cons.IH by (simp add: not_less [symmetric])
qed


lemma example_distances:
  "School_distance school_A (fromdegrees 0 0) = Inr 0"
  "School_distance school_B (fromdegrees 0 0) = Inr (3961 * pi)"
  by (simp_all add: School_distance_def school_A_def school_B_def fromdegrees_def
      degree_to_radian_def math_sqrt_def math_asin_def math_pow_def EARTH_RADIUS_def)

lemma example_within:
  "within_radius school_A (fromdegrees 0 0) 1"
  "\<not> within_radius school_B (fromdegrees 0 0) 1"
  "within_radius school_A (fromdegrees 0 0) 20000"
  "within_radius school_B (fromdegrees 0 0) 20000"
  using pi_ge_two pi_less_4 by (simp_all add: within_radius_def example_distances)

section \<open>The loops of the queries\<close>

lemma copy_grades_append:
  "copy_grades gs input_grades = input_grades @ gs"
  by (induction gs arbitrary: input_grades) simp_all

lemma grade_loop_filter:
  "grade_loop input_grades ss acc
     = acc @ filter (\<lambda>s. set input_grades \<subseteq> set (grades s)) ss"
  by (induction ss arbitrary: acc) simp_all

lemma network_loop_filter:
  "network_loop network_arg ss acc = acc @ filter (\<lambda>s. network s = network_arg) ss"
  by (induction ss arbitrary: acc) simp_all

section \<open>Loading the file\<close>

lemma School_init_Inr_fields:
  assumes "School_init parse_int parse_float data = Inr s"
  shows "\<not> bad_numeric_field parse_int parse_float data"
  using assms
  by (auto simp: School_init_def getitem_def py_int_def py_float_def bad_numeric_field_def
      unparseable_int_def unparseable_float_def split: option.splits)

lemma School_init_bad:
  assumes "bad_numeric_field parse_int parse_float data"
  shows "\<exists>e. School_init parse_int parse_float data = Inl e"
proof (cases "School_init parse_int parse_float data")
  case (Inl e)
  then show ?thesis by blast
next
  case (Inr s)
  then show ?thesis
    using School_init_Inr_fields assms by blast
qed

lemma School_init_complete_error:
  assumes "complete_row data" and "School_init parse_int parse_float data = Inl e"
  shows "e = ValueError"
  using assms
  by (auto simp: School_init_def getitem_def py_int_def py_float_def complete_row_def
      required_columns_def split: option.splits)

lemma load_schools_bad:
  assumes "\<exists>line \<in> set lines. bad_numeric_field parse_int parse_float (dict_zip header line)"
  shows "\<exists>e. load_schools parse_int parse_float header lines acc = Inl e"
  using assms
proof (induction lines arbitrary: acc)
  case Nil
  then show ?case by simp
next
  case (Cons line rest)
  show ?case
  proof (cases "School_init parse_int parse_float (dict_zip header line)")
    case (Inl e)
    then show ?thesis by simp
  next
    case (Inr s)
    then have "\<not> bad_numeric_field parse_int parse_float (dict_zip header line)"
      by (rule School_init_Inr_fields)
    then have "\<exists>l \<in> set rest. bad_numeric_field parse_int parse_float (dict_zip header l)"
      using Cons.prems by simp
    then show ?thesis
      using Inr Cons.IH by simp
  qed
qed

lemma load_schools_complete_error:
  assumes "\<forall>line \<in> set lines. complete_row (dict_zip header line)"
    and "load_schools parse_int parse_float header lines acc = Inl e"
  shows "e = ValueError"
  using assms
proof (induction lines arbitrary: acc)
  case Nil
  then show ?case by simp
next
  case (Cons line rest)
  show ?case
  proof (cases "School_init parse_int parse_float (dict_zip header line)")
    case (Inl e')
    moreover have "complete_row (dict_zip header line)"
      using Cons.prems(1) by simp
    ultimately have "e' = ValueError"
      by (rule School_init_complete_error [rotated])
    then show ?thesis
      using Inl Cons.prems(2) by simp
  next
    case (Inr s)
    then show ?thesis
      using Cons by simp
  qed
qed

lemma example_rows:
  "School_init example_parse_int example_parse_float (dict_zip example_header example_row_A)
     = Inr school_A"
  "School_init example_parse_int example_parse_float (dict_zip example_header example_row_B)
     = Inr school_B"
  "School_init example_parse_int example_parse_float (dict_zip example_header example_row_bad)
     = Inl ValueError"
  "School_init example_parse_int example_parse_float (dict_zip example_header [])
     = Inl (KeyError ''School_ID'')"
  by (simp_all add: School_init_def dict_zip_def example_header_def example_row_A_def
      example_row_B_def example_row_bad_def getitem_def
      py_int_def py_float_def example_parse_int_def example_parse_float_def school_A_def
      school_B_def str_split_def)

lemma example_rows_status:
  "bad_numeric_field example_parse_int example_parse_float (dict_zip example_header example_row_bad)"
  "complete_row (dict_zip example_header example_row_A)"
  "complete_row (dict_zip example_header example_row_bad)"
  by (simp_all add: bad_numeric_field_def unparseable_int_def unparseable_float_def
      complete_row_def required_columns_def dict_zip_def example_header_def example_row_A_def
      example_row_bad_def example_parse_int_def example_parse_float_def)

section \<open>Rounding in the conversions\<close>

lemma float_rounding_small:
  assumes "float_rounding rnd" and "\<bar>x\<bar> \<le> 2000"
  shows "\<bar>rnd x - x\<bar> \<le> 1 / 10 ^ 12"
proof -
  have "(2000::real) \<le> 2 ^ 11" by simp
  also have "(2::real) ^ 11 \<le> 2 ^ 1023"
    by (rule power_increasing) simp_all
  finally have big: "\<bar>x\<bar> \<le> 2 ^ 1023"
    using assms(2) by linarith
  have eta: "1 / (2::real) ^ 1075 \<le> 1 / 2 ^ 53"
    by (intro divide_left_mono power_increasing) simp_all
  have "\<bar>rnd x - x\<bar> \<le> \<bar>x\<bar> / 2 ^ 53 + 1 / 2 ^ 1075"
    using assms(1) big unfolding float_rounding_def by blast
  also have "\<dots> \<le> 2000 / 2 ^ 53 + 1 / 2 ^ 53"
    using assms(2) eta by (intro add_mono divide_right_mono) simp_all
  also have "\<dots> \<le> 1 / 10 ^ 12"
    by simp
  finally show ?thesis .
qed

lemma roundtrip_fl:
  assumes rnd: "float_rounding rnd" and d: "\<bar>d\<bar> \<le> 180"
  shows "\<bar>rnd (rnd (degree_to_radian_fl rnd d * 180) / rnd pi) - d\<bar> \<le> 1 / 10 ^ 9"
proof -
  define eps :: real where "eps = 1 / 10 ^ 12"
  have eps: "0 \<le> eps" "eps \<le> 1" by (simp_all add: eps_def)
  have R: "\<bar>rnd x - x\<bar> \<le> eps" if "\<bar>x\<bar> \<le> 2000" for x
    unfolding eps_def using rnd that by (rule float_rounding_small)
  define p where "p = rnd pi"
  define x1 where "x1 = d * p"
  define a where "a = rnd x1"
  define x2 where "x2 = a / 180"
  define b where "b = rnd x2"
  define x3 where "x3 = b * 180"
  define c where "c = rnd x3"
  define x4 where "x4 = c / p"
  define e where "e = rnd x4"
  have "\<bar>pi\<bar> \<le> 2000" using pi_less_4 pi_ge_two by simp
  then have "\<bar>p - pi\<bar> \<le> eps" unfolding p_def by (rule R)
  then have p1: "1 \<le> p" and p5: "p \<le> 5"
    using pi_less_4 pi_ge_two eps by linarith+
  have "\<bar>x1\<bar> = \<bar>d\<bar> * \<bar>p\<bar>" by (simp add: x1_def abs_mult)
  also have "\<dots> \<le> 180 * 5"
    using d p1 p5 by (intro mult_mono) simp_all
  finally have x1: "\<bar>x1\<bar> \<le> 900" by simp
  then have ea: "\<bar>a - x1\<bar> \<le> eps" unfolding a_def by (intro R) simp
  then have a: "\<bar>a\<bar> \<le> 901" using x1 eps by linarith
  have x2: "\<bar>x2\<bar> \<le> 6" using a by (simp add: x2_def)
  then have eb: "\<bar>b - x2\<bar> \<le> eps" unfolding b_def by (intro R) simp
  then have b: "\<bar>b\<bar> \<le> 7" using x2 eps by linarith
  have x3: "\<bar>x3\<bar> \<le> 1260" using b by (simp add: x3_def)
  then have ec: "\<bar>c - x3\<bar> \<le> eps" unfolding c_def by (intro R) simp
  then have c: "\<bar>c\<bar> \<le> 1261" using x3 eps by linarith
  have "\<bar>x4\<bar> = \<bar>c\<bar> / p" using p1 by (simp add: x4_def)
  also have "\<dots> \<le> \<bar>c\<bar> / 1"
    using p1 by (intro divide_left_mono) simp_all
  finally have x4: "\<bar>x4\<bar> \<le> 1261" using c by simp
  then have ee: "\<bar>e - x4\<bar> \<le> eps" unfolding e_def by (intro R) simp
  have "x3 = 180 * b" and "a = 180 * x2"
    by (simp_all add: x3_def x2_def)
  then have cx: "\<bar>c - x1\<bar> \<le> 182 * eps"
    using ea eb ec by linarith
  have "x4 - d = (c - x1) / p"
    using p1 by (simp add: x4_def x1_def field_simps)
  then have "\<bar>x4 - d\<bar> = \<bar>c - x1\<bar> / p"
    using p1 by simp
  also have "\<dots> \<le> \<bar>c - x1\<bar> / 1"
    using p1 by (intro divide_left_mono) simp_all
  finally have "\<bar>x4 - d\<bar> \<le> 182 * eps" using cx by simp
  then have "\<bar>e - d\<bar> \<le> 183 * eps" using ee by linarith
  also have "\<dots> \<le> 1 / 10 ^ 9" by (simp add: eps_def)
  finally show ?thesis
    by (simp add: e_def x4_def c_def x3_def b_def x2_def a_def x1_def p_def
        degree_to_radian_fl_def)
qed


lemma conversions_exact:
  "degree_to_radian_fl (\<lambda>x. x) d = degree_to_radian d"
  "fromdegrees_fl (\<lambda>x. x) lat lon = fromdegrees lat lon"
  "as_degrees_fl (\<lambda>x. x) c = as_degrees c"
  by (simp_all add: degree_to_radian_fl_def degree_to_radian_def fromdegrees_fl_def
      fromdegrees_def as_degrees_fl_def as_degrees_def)

section \<open>Claims about Coordinate.distance\<close>

text \<open>
  C2. For every pair of coordinates \<open>a\<close> and \<open>b\<close>, \<^verbatim>\<open>Coordinate.distance\<close> returns the
  haversine expression
  \<open>2 * R * arcsin (sqrt (sin\<^sup>2 (dlat / 2) + cos lat_a * cos lat_b * sin\<^sup>2 (dlon / 2)))\<close>
  with \<open>dlat = lat_a - lat_b\<close>, \<open>dlon = lon_a - lon_b\<close> and \<open>R = 3961\<close>, the value of
  \<^verbatim>\<open>EARTH_RADIUS\<close>; it raises nothing.
\<close>

theorem Coordinate_distance_haversine:
  "Coordinate_distance a b
     = Inr (spec_haversine (latitude a) (longitude a) (latitude b) (longitude b))
   \<and> EARTH_RADIUS = 3961"
  by (simp add: Coordinate_distance_Inr spec_haversine_def EARTH_RADIUS_def)

theorem Coordinate_distance_haversine_witness:
  "Coordinate_distance (fromdegrees 0 180) (fromdegrees 0 0) = Inr (3961 * pi)
   \<and> spec_haversine 0 pi 0 0 = 3961 * pi"
  using Coordinate_distance_haversine [of "fromdegrees 0 180" "fromdegrees 0 0"]
  by (simp add: spec_haversine_def fromdegrees_def degree_to_radian_def)

text \<open>
  C10. For all real latitudes and longitudes of the two points, the argument of
  \<^verbatim>\<open>math.sqrt\<close> in \<^verbatim>\<open>Coordinate.distance\<close> lies in \<open>[0, 1]\<close>; so the function returns
  a value (neither \<^verbatim>\<open>math.sqrt\<close> nor \<^verbatim>\<open>math.asin\<close> raises), and the value lies in
  \<open>[0, pi * R]\<close>. The witness is a pair of points half a great circle apart, where the
  upper bound is reached.
\<close>

theorem Coordinate_distance_in_domain:
  "0 \<le> math_pow (sin ((latitude a - latitude b) / 2)) 2
         + cos (latitude a) * cos (latitude b) * math_pow (sin ((longitude a - longitude b) / 2)) 2
   \<and> math_pow (sin ((latitude a - latitude b) / 2)) 2
         + cos (latitude a) * cos (latitude b) * math_pow (sin ((longitude a - longitude b) / 2)) 2
       \<le> 1
   \<and> (\<exists>d. Coordinate_distance a b = Inr d \<and> 0 \<le> d \<and> d \<le> pi * EARTH_RADIUS)"
proof -
  obtain d where d: "Coordinate_distance a b = Inr d"
    using Coordinate_distance_Inr by blast
  show ?thesis
    using hav_nonneg [of "latitude a" "latitude b" "(longitude a - longitude b) / 2"]
      hav_le_one [of "latitude a" "latitude b" "(longitude a - longitude b) / 2"]
      d Coordinate_distance_bounds [OF d]
    by (simp add: math_pow_def)
qed

theorem Coordinate_distance_in_domain_witness:
  "Coordinate_distance (fromdegrees 0 0) (fromdegrees 0 180) = Inr (pi * EARTH_RADIUS)
   \<and> Coordinate_distance (fromdegrees 0 0) (fromdegrees 0 0) = Inr 0"
  using Coordinate_distance_in_domain [of "fromdegrees 0 0" "fromdegrees 0 180"]
  by (simp add: Coordinate_distance_def fromdegrees_def degree_to_radian_def math_sqrt_def
      math_asin_def math_pow_def EARTH_RADIUS_def)

text \<open>
  C9. For every school \<open>s\<close> and every coordinate \<open>c\<close>, \<^verbatim>\<open>School.distance\<close> of \<open>s\<close> to
  \<open>c\<close> returns what \<^verbatim>\<open>Coordinate.distance\<close> of the location of \<open>s\<close> to \<open>c\<close> returns: the
  same value, or the same exception.
\<close>

theorem School_distance_eq_Coordinate_distance:
  "School_distance s c = Coordinate_distance (location s) c"
  by (simp add: School_distance_def Coordinate_distance_def)

theorem School_distance_eq_Coordinate_distance_witness:
  "School_distance school_B (fromdegrees 0 0) = Inr (3961 * pi)
   \<and> Coordinate_distance (location school_B) (fromdegrees 0 0) = Inr (3961 * pi)"
  using School_distance_eq_Coordinate_distance [of school_B "fromdegrees 0 0"]
  by (simp add: example_distances)

section \<open>Claims about the queries\<close>



text \<open>
  C7. For every catalog and point and all radii \<open>r1 \<le> r2\<close>, the result of
  \<^verbatim>\<open>nearby_schools\<close> for \<open>r1\<close> is a sub-collection of the result for \<open>r2\<close>: every school
  of the first is in the second, in the same order.
\<close>

theorem nearby_schools_radius_mono:
  assumes "r1 \<le> r2"
  shows "\<exists>xs ys. nearby_schools self point r1 = Inr xs
           \<and> nearby_schools self point r2 = Inr ys
           \<and> set xs \<subseteq> set ys \<and> subseq xs ys"
proof -
  let ?xs = "filter (\<lambda>s. within_radius s point r1) (schools self)"
  let ?ys = "filter (\<lambda>s. within_radius s point r2) (schools self)"
  have imp: "within_radius s point r2" if "within_radius s point r1" for s
    using that assms by (auto simp: within_radius_def split: sum.splits)
  then have xs: "?xs = filter (\<lambda>s. within_radius s point r1) ?ys"
    by (auto intro: filter_cong)
  have "subseq ?xs ?ys"
    by (subst xs) (rule subseq_filter_left)
  moreover have "set ?xs \<subseteq> set ?ys"
    using imp by auto
  moreover have "nearby_schools self point r1 = Inr ?xs"
    and "nearby_schools self point r2 = Inr ?ys"
    by (simp_all add: nearby_schools_def nearby_loop_filter)
  ultimately show ?thesis by blast
qed

theorem nearby_schools_radius_mono_witness:
  "nearby_schools example_cps (fromdegrees 0 0) 1 = Inr [school_A]
   \<and> nearby_schools example_cps (fromdegrees 0 0) 20000 = Inr [school_A, school_B]
   \<and> set [school_A] \<subseteq> set [school_A, school_B]
   \<and> subseq [school_A] [school_A, school_B]"
proof -
  have le: "(1::real) \<le> 20000" by simp
  have n1: "nearby_schools example_cps (fromdegrees 0 0) 1 = Inr [school_A]"
    by (simp add: nearby_schools_def nearby_loop_filter example_cps_def example_within)
  have n2: "nearby_schools example_cps (fromdegrees 0 0) 20000 = Inr [school_A, school_B]"
    by (simp add: nearby_schools_def nearby_loop_filter example_cps_def example_within)
  show ?thesis
    using nearby_schools_radius_mono [OF le, of example_cps "fromdegrees 0 0"] n1 n2
    by simp
qed

text \<open>
  C3. For every catalog and every list of grades \<open>G\<close>, \<^verbatim>\<open>get_schools_by_grade\<close> returns
  the schools whose set of grades includes the set of \<open>G\<close>, in the order of the catalog;
  repeated grades in \<open>G\<close> change nothing, and for the empty \<open>G\<close> the result is the whole
  catalog.
\<close>

theorem get_schools_by_grade_superset:
  "get_schools_by_grade self G = filter (\<lambda>s. set G \<subseteq> set (grades s)) (schools self)
   \<and> get_schools_by_grade self (remdups G) = get_schools_by_grade self G
   \<and> get_schools_by_grade self [] = schools self"
  by (simp add: get_schools_by_grade_def copy_grades_append grade_loop_filter)

theorem get_schools_by_grade_superset_witness:
  "get_schools_by_grade example_cps [''K''] = [school_A]
   \<and> get_schools_by_grade example_cps [''1'', ''K'', ''1''] = [school_A]
   \<and> get_schools_by_grade example_cps [''K'', ''9''] = []
   \<and> get_schools_by_grade example_cps [] = [school_A, school_B]"
  using get_schools_by_grade_superset [of example_cps "[''K'']"]
    get_schools_by_grade_superset [of example_cps "[''1'', ''K'', ''1'']"]
    get_schools_by_grade_superset [of example_cps "[''K'', ''9'']"]
    get_schools_by_grade_superset [of example_cps "[]"]
  by (simp add: example_cps_def school_A_def school_B_def)

text \<open>
  C4. For every catalog and every string \<open>n\<close>, \<^verbatim>\<open>get_schools_by_network\<close> returns the
  schools whose network is the string \<open>n\<close> itself (equal character for character), in
  the order of the catalog, and the empty list when no school has that network.
\<close>

theorem get_schools_by_network_exact:
  "get_schools_by_network self n = filter (\<lambda>s. network s = n) (schools self)
   \<and> ((\<forall>s \<in> set (schools self). network s \<noteq> n) \<longrightarrow> get_schools_by_network self n = [])"
  by (simp add: get_schools_by_network_def network_loop_filter filter_empty_conv)

theorem get_schools_by_network_exact_witness:
  "get_schools_by_network example_cps ''N2'' = [school_B]
   \<and> get_schools_by_network example_cps ''n2'' = []
   \<and> get_schools_by_network example_cps ''N'' = []"
  using get_schools_by_network_exact [of example_cps "''N2''"]
    get_schools_by_network_exact [of example_cps "''n2''"]
    get_schools_by_network_exact [of example_cps "''N''"]
  by (simp add: example_cps_def school_A_def school_B_def)

section \<open>Claims about the constructors\<close>

text \<open>
  C5. The result of \<^verbatim>\<open>CPS.__init__\<close> does not depend on its \<^verbatim>\<open>filename\<close> argument: on the
  same file system, any two file names give the same result. In the witness the file
  \<^verbatim>\<open>other.csv\<close> holds one school, and the catalog built for it has the two schools of
  \<^verbatim>\<open>schools.csv\<close>.
\<close>

theorem CPS_init_ignores_filename:
  "CPS_init parse_int parse_float fs filename1 = CPS_init parse_int parse_float fs filename2"
  by (simp add: CPS_init_def)

theorem CPS_init_ignores_filename_witness:
  "CPS_init example_parse_int example_parse_float example_fs ''other.csv'' = Inr example_cps
   \<and> CPS_init example_parse_int example_parse_float example_fs ''schools.csv'' = Inr example_cps"
  using CPS_init_ignores_filename [of example_parse_int example_parse_float example_fs
      "''other.csv''" "''schools.csv''"]
  by (simp add: CPS_init_def example_fs_def example_rows example_cps_def)

text \<open>
  C6, as amended. When \<^verbatim>\<open>schools.csv\<close> has a header and some data row whose
  \<^verbatim>\<open>School_ID\<close>, \<^verbatim>\<open>Lat\<close> or \<^verbatim>\<open>Long\<close> field is present and not parseable,
  \<^verbatim>\<open>CPS.__init__\<close> raises and builds no catalog, not even of the rows before the bad one;
  and when every data row has all nine columns, the exception is the ValueError of the
  conversion.
\<close>

theorem CPS_init_bad_numeric_field:
  assumes "fs ''schools.csv'' = Some (header # lines)"
    and "\<exists>line \<in> set lines. bad_numeric_field parse_int parse_float (dict_zip header line)"
  shows "(\<exists>e. CPS_init parse_int parse_float fs filename = Inl e)
       \<and> ((\<forall>line \<in> set lines. complete_row (dict_zip header line))
            \<longrightarrow> CPS_init parse_int parse_float fs filename = Inl ValueError)"
proof -
  obtain e where e: "load_schools parse_int parse_float header lines [] = Inl e"
    using load_schools_bad [OF assms(2)] by blast
  then have failed: "CPS_init parse_int parse_float fs filename = Inl e"
    using assms(1) by (simp add: CPS_init_def)
  moreover have "e = ValueError"
    if "\<forall>line \<in> set lines. complete_row (dict_zip header line)"
    using that e by (rule load_schools_complete_error)
  ultimately show ?thesis by blast
qed

theorem CPS_init_bad_numeric_field_witness:
  "CPS_init example_parse_int example_parse_float
     [''schools.csv'' \<mapsto> [example_header, example_row_A, example_row_bad]] ''schools.csv''
   = Inl ValueError"
  using CPS_init_bad_numeric_field [of
      "[''schools.csv'' \<mapsto> [example_header, example_row_A, example_row_bad]]"
      example_header "[example_row_A, example_row_bad]"
      example_parse_int example_parse_float "''schools.csv''"]
  by (simp add: example_rows_status)

text \<open>
  C6 as stated has the exception be the ValueError of the conversion for every input.
  Here a blank line, for which \<^verbatim>\<open>csv.reader\<close> yields the empty row, comes before the row
  with the bad latitude: the exception is the KeyError of the lookup of \<^verbatim>\<open>School_ID\<close>.
\<close>

theorem CPS_init_missing_field_first:
  "bad_numeric_field example_parse_int example_parse_float
     (dict_zip example_header example_row_bad)
   \<and> CPS_init example_parse_int example_parse_float
       [''schools.csv'' \<mapsto> [example_header, [], example_row_bad]] ''schools.csv''
     = Inl (KeyError ''School_ID'')
   \<and> CPS_init example_parse_int example_parse_float
       [''schools.csv'' \<mapsto> [example_header, [], example_row_bad]] ''schools.csv''
     \<noteq> Inl ValueError"
  by (simp add: CPS_init_def example_rows example_rows_status)

text \<open>
  C8. For every rounding \<open>rnd\<close> within the standard model, every latitude in
  \<open>[-90, 90]\<close> and every longitude in \<open>[-180, 180]\<close>, converting to radians with
  \<^verbatim>\<open>fromdegrees\<close> and back with \<^verbatim>\<open>as_degrees\<close> returns each component to within
  \<open>10\<^sup>-\<^sup>9\<close>. Exact arithmetic is the case of the identity rounding, and there the
  round trip returns the pair itself: multiplying by \<open>pi / 180\<close> is undone by multiplying
  by \<open>180 / pi\<close>.
\<close>

theorem as_degrees_fromdegrees_roundtrip:
  assumes "float_rounding rnd"
    and "- 90 \<le> lat" and "lat \<le> 90" and "- 180 \<le> lon" and "lon \<le> 180"
  shows "\<bar>fst (as_degrees_fl rnd (fromdegrees_fl rnd lat lon)) - lat\<bar> \<le> 1 / 10 ^ 9
       \<and> \<bar>snd (as_degrees_fl rnd (fromdegrees_fl rnd lat lon)) - lon\<bar> \<le> 1 / 10 ^ 9
       \<and> as_degrees_fl (\<lambda>x. x) (fromdegrees_fl (\<lambda>x. x) lat lon) = as_degrees (fromdegrees lat lon)
       \<and> as_degrees (fromdegrees lat lon) = (lat, lon)"
proof -
  have "\<bar>lat\<bar> \<le> 180" and "\<bar>lon\<bar> \<le> 180"
    using assms(2-5) by linarith+
  then have "\<bar>rnd (rnd (degree_to_radian_fl rnd lat * 180) / rnd pi) - lat\<bar> \<le> 1 / 10 ^ 9"
    and "\<bar>rnd (rnd (degree_to_radian_fl rnd lon * 180) / rnd pi) - lon\<bar> \<le> 1 / 10 ^ 9"
    using assms(1) by (simp_all only: roundtrip_fl)
  then have rounded:
    "\<bar>fst (as_degrees_fl rnd (fromdegrees_fl rnd lat lon)) - lat\<bar> \<le> 1 / 10 ^ 9"
    "\<bar>snd (as_degrees_fl rnd (fromdegrees_fl rnd lat lon)) - lon\<bar> \<le> 1 / 10 ^ 9"
    by (simp_all add: as_degrees_fl_def fromdegrees_fl_def)
  have identity_case: "as_degrees_fl (\<lambda>x. x) (fromdegrees_fl (\<lambda>x. x) lat lon)
      = as_degrees (fromdegrees lat lon)"
    by (simp only: conversions_exact)
  have exact_case: "as_degrees (fromdegrees lat lon) = (lat, lon)"
    by (simp add: as_degrees_def fromdegrees_def degree_to_radian_def)
  show ?thesis
    using rounded identity_case exact_case by blast
qed

theorem as_degrees_fromdegrees_roundtrip_witness:
  "float_rounding (\<lambda>x. x * (1 + 1 / 2 ^ 53))
   \<and> \<bar>fst (as_degrees_fl (\<lambda>x. x * (1 + 1 / 2 ^ 53))
            (fromdegrees_fl (\<lambda>x. x * (1 + 1 / 2 ^ 53)) 45 (- 90))) - 45\<bar> \<le> 1 / 10 ^ 9
   \<and> \<bar>snd (as_degrees_fl (\<lambda>x. x * (1 + 1 / 2 ^ 53))
            (fromdegrees_fl (\<lambda>x. x * (1 + 1 / 2 ^ 53)) 45 (- 90))) - (- 90)\<bar> \<le> 1 / 10 ^ 9
   \<and> as_degrees (fromdegrees 45 (- 90)) = (45, - 90)"
proof -
  have "\<bar>x * (1 + 1 / 2 ^ 53) - x\<bar> \<le> \<bar>x\<bar> / 2 ^ 53 + 1 / 2 ^ 1075" for x :: real
  proof -
    have "x * (1 + 1 / 2 ^ 53) - x = x / 2 ^ 53"
      by (simp add: algebra_simps)
    then show ?thesis
      by simp
  qed
  then have r: "float_rounding (\<lambda>x. x * (1 + 1 / 2 ^ 53))"
    by (simp add: float_rounding_def)
  show ?thesis
    using r as_degrees_fromdegrees_roundtrip [OF r, of 45 "- 90"]
    by simp
qed

end
